theory Spec2Isabelle
  imports Complex_Main "HOL-Library.AList" "HOL-Library.Log_Nat"
begin

section \<open>JavaScript values used by VShield.js\<close>

text \<open>
  A JavaScript number is a double. It is modelled by the rational it denotes, or
  one of the three non-finite values. Reading a number from text rounds the value
  of the literal to the nearest double (\<open>round_double\<close> below). The one sum and
  the one difference of the program, \<open>now + ttl\<close> and \<open>expireAt - now\<close>, are
  computed on the rationals: that is the double result whenever the operands and
  the result are integers of magnitude at most \<open>2^53\<close>, which covers every clock
  value (at most 8.64e15 ms in magnitude) together with every time-to-live that
  keeps \<open>now + ttl\<close> within \<open>2^53\<close>. The theorems that state the stored sum for
  an arbitrary time-to-live (claims C6 and C7) carry that range as a hypothesis.
\<close>

datatype jsnum = Fin rat | NaN | PosInf | NegInf

datatype jsval = Undefined | Null | JNum jsnum | JStr string

datatype js_error = TypeError | RangeError

fun js_neg :: "jsnum \<Rightarrow> jsnum" where
  "js_neg (Fin a) = Fin (- a)"
| "js_neg NaN = NaN"
| "js_neg PosInf = NegInf"
| "js_neg NegInf = PosInf"

text \<open>
  Sum, difference and comparison. On finite operands the sum is the sum of the
  rationals, without the final rounding of the runtime (see above for the range
  where the two agree).
\<close>

fun js_add :: "jsnum \<Rightarrow> jsnum \<Rightarrow> jsnum" where
  "js_add (Fin a) (Fin b) = Fin (a + b)"
| "js_add NaN _ = NaN"
| "js_add _ NaN = NaN"
| "js_add PosInf NegInf = NaN"
| "js_add NegInf PosInf = NaN"
| "js_add PosInf _ = PosInf"
| "js_add _ PosInf = PosInf"
| "js_add NegInf _ = NegInf"
| "js_add _ NegInf = NegInf"

definition js_sub :: "jsnum \<Rightarrow> jsnum \<Rightarrow> jsnum" where
  "js_sub a b = js_add a (js_neg b)"

fun js_le :: "jsnum \<Rightarrow> jsnum \<Rightarrow> bool" where
  "js_le NaN _ = False"
| "js_le _ NaN = False"
| "js_le (Fin a) (Fin b) = (a \<le> b)"
| "js_le NegInf _ = True"
| "js_le _ PosInf = True"
| "js_le _ _ = False"

fun js_lt :: "jsnum \<Rightarrow> jsnum \<Rightarrow> bool" where
  "js_lt NaN _ = False"
| "js_lt _ NaN = False"
| "js_lt (Fin a) (Fin b) = (a < b)"
| "js_lt PosInf _ = False"
| "js_lt NegInf NegInf = False"
| "js_lt NegInf _ = True"
| "js_lt _ PosInf = True"
| "js_lt _ _ = False"

text \<open>\<open>Number.isInteger\<close> and \<open>Number.isNaN\<close>.\<close>

fun Number_isInteger :: "jsnum \<Rightarrow> bool" where
  "Number_isInteger (Fin q) = (of_int \<lfloor>q\<rfloor> = q)"
| "Number_isInteger _ = False"

definition Number_isNaN :: "jsnum \<Rightarrow> bool" where
  "Number_isNaN n = (n = NaN)"

subsection \<open>Rounding to a double\<close>

text \<open>
  Binary64, round to nearest, ties to even. For a positive \<open>a\<close> with
  \<open>2^e \<le> a < 2^(e+1)\<close> the spacing of doubles is \<open>2^(e-52)\<close>, and \<open>2^(-1074)\<close> below
  \<open>2^(-1022)\<close>; \<open>a\<close> is rounded to a whole number of such steps, and a result
  of \<open>2^1024\<close> or more is an infinity.
\<close>

definition pow2 :: "int \<Rightarrow> rat" where
  "pow2 e = (if 0 \<le> e then 2 ^ nat e else 1 / 2 ^ nat (- e))"

definition floor_log2 :: "rat \<Rightarrow> int" where
  "floor_log2 q = (if 1 \<le> q then bitlen \<lfloor>q\<rfloor> - 1 else - bitlen (\<lceil>1 / q\<rceil> - 1))"

definition round_half_even :: "rat \<Rightarrow> int" where
  "round_half_even m =
     (let f = \<lfloor>m\<rfloor>; r = m - of_int f
      in if r < 1 / 2 then f else if 1 / 2 < r then f + 1 else if even f then f else f + 1)"

definition round_double :: "rat \<Rightarrow> jsnum" where
  "round_double q =
     (if q = 0 then Fin 0
      else
        let a = \<bar>q\<bar>;
            e = max (floor_log2 a) (- 1022);
            u = pow2 (e - 52);
            r = of_int (round_half_even (a / u)) * u
        in if pow2 1024 \<le> r then (if 0 < q then PosInf else NegInf)
           else Fin (if 0 < q then r else - r))"

subsection \<open>\<open>Number(string)\<close>: the StringToNumber grammar\<close>

text \<open>
  Strings are lists of HOL characters, read as code units below 256. White space is
  stripped at both ends; the empty string is 0; a literal is a radix-prefixed
  integer (\<open>0x\<close>, \<open>0o\<close>, \<open>0b\<close>, unsigned) or an optionally signed decimal literal
  (\<open>Infinity\<close>, or digits with an optional fraction and exponent); anything else is
  \<open>NaN\<close>. The value of a literal is rounded to a double.
\<close>

definition isStrWhiteSpaceChar :: "char \<Rightarrow> bool" where
  "isStrWhiteSpaceChar c = ((of_char c :: nat) \<in> {9, 10, 11, 12, 13, 32, 160})"

definition trimString :: "string \<Rightarrow> string" where
  "trimString s = rev (dropWhile isStrWhiteSpaceChar (rev (dropWhile isStrWhiteSpaceChar s)))"

definition digitValue :: "nat \<Rightarrow> char \<Rightarrow> nat option" where
  "digitValue base c =
     (let n = (of_char c :: nat);
          v = (if 48 \<le> n \<and> n \<le> 57 then Some (n - 48)
               else if 97 \<le> n \<and> n \<le> 102 then Some (n - 87)
               else if 65 \<le> n \<and> n \<le> 70 then Some (n - 55)
               else None)
      in case v of None \<Rightarrow> None | Some d \<Rightarrow> if d < base then Some d else None)"

fun digitsValue :: "nat \<Rightarrow> nat \<Rightarrow> string \<Rightarrow> nat option" where
  "digitsValue base acc [] = Some acc"
| "digitsValue base acc (c # cs) =
     (case digitValue base c of
        None \<Rightarrow> None
      | Some d \<Rightarrow> digitsValue base (acc * base + d) cs)"

definition parseDigits :: "nat \<Rightarrow> string \<Rightarrow> nat option" where
  "parseDigits base s = (if s = [] then None else digitsValue base 0 s)"

definition splitAt :: "(char \<Rightarrow> bool) \<Rightarrow> string \<Rightarrow> string \<times> string option" where
  "splitAt P s =
     (let a = takeWhile (\<lambda>c. \<not> P c) s; b = dropWhile (\<lambda>c. \<not> P c) s
      in (a, if b = [] then None else Some (tl b)))"

definition parseSignedInteger :: "string \<Rightarrow> int option" where
  "parseSignedInteger s =
     (if s = [] then None
      else if hd s = CHR ''+'' then map_option int (parseDigits 10 (tl s))
      else if hd s = CHR ''-'' then map_option (\<lambda>n. - int n) (parseDigits 10 (tl s))
      else map_option int (parseDigits 10 s))"

definition parseMantissa :: "string \<Rightarrow> rat option" where
  "parseMantissa m =
     (case splitAt (\<lambda>c. c = CHR ''.'') m of
        (ip, None) \<Rightarrow> map_option of_nat (parseDigits 10 ip)
      | (ip, Some fp) \<Rightarrow>
          if ip = [] then map_option (\<lambda>f. of_nat f / 10 ^ length fp) (parseDigits 10 fp)
          else (case parseDigits 10 ip of
                  None \<Rightarrow> None
                | Some i \<Rightarrow>
                    if fp = [] then Some (of_nat i)
                    else map_option (\<lambda>f. of_nat i + of_nat f / 10 ^ length fp)
                           (parseDigits 10 fp)))"

definition scale10 :: "rat \<Rightarrow> int \<Rightarrow> rat" where
  "scale10 q e = (if 0 \<le> e then q * 10 ^ nat e else q / 10 ^ nat (- e))"

definition parseUnsignedDecimal :: "string \<Rightarrow> jsnum option" where
  "parseUnsignedDecimal s =
     (if s = ''Infinity'' then Some PosInf
      else case splitAt (\<lambda>c. c = CHR ''e'' \<or> c = CHR ''E'') s of
             (m, None) \<Rightarrow> map_option round_double (parseMantissa m)
           | (m, Some ex) \<Rightarrow>
               (case parseMantissa m of
                  None \<Rightarrow> None
                | Some q \<Rightarrow>
                    map_option (\<lambda>e. round_double (scale10 q e)) (parseSignedInteger ex)))"

definition radixPrefix :: "string \<Rightarrow> (nat \<times> string) option" where
  "radixPrefix t =
     (case t of
        c0 # c1 # r \<Rightarrow>
          if c0 \<noteq> CHR ''0'' then None
          else if c1 = CHR ''x'' \<or> c1 = CHR ''X'' then Some (16, r)
          else if c1 = CHR ''o'' \<or> c1 = CHR ''O'' then Some (8, r)
          else if c1 = CHR ''b'' \<or> c1 = CHR ''B'' then Some (2, r)
          else None
      | _ \<Rightarrow> None)"

definition StringToNumber :: "string \<Rightarrow> jsnum" where
  "StringToNumber s =
     (let t = trimString s in
      if t = [] then Fin 0
      else case radixPrefix t of
             Some (b, r) \<Rightarrow>
               (case parseDigits b r of None \<Rightarrow> NaN | Some n \<Rightarrow> round_double (of_nat n))
           | None \<Rightarrow>
               if hd t = CHR ''+'' then
                 (case parseUnsignedDecimal (tl t) of None \<Rightarrow> NaN | Some n \<Rightarrow> n)
               else if hd t = CHR ''-'' then
                 (case parseUnsignedDecimal (tl t) of None \<Rightarrow> NaN | Some n \<Rightarrow> js_neg n)
               else (case parseUnsignedDecimal t of None \<Rightarrow> NaN | Some n \<Rightarrow> n))"

fun Number :: "jsval \<Rightarrow> jsnum" where
  "Number Undefined = NaN"
| "Number Null = Fin 0"
| "Number (JNum n) = n"
| "Number (JStr s) = StringToNumber s"

section \<open>The shared dictionary\<close>

text \<open>
  \<open>ngx.shared.vs_ip\<close> is a dictionary with \<open>get\<close>, \<open>set(key, value, ttl)\<close>,
  \<open>delete\<close> and \<open>keys\<close>; when the zone is not configured it is \<open>undefined\<close>. An
  entry keeps the value and the time-to-live handed to \<open>set\<close>. Keys are listed in
  insertion order, as the \<open>Map\<close> behind the test double does.
\<close>

record entry =
  stored :: jsval
  ttl :: jsnum

type_synonym dict = "(string \<times> entry) list"

definition dict_get :: "dict \<Rightarrow> string \<Rightarrow> jsval" where
  "dict_get d k = (case map_of d k of None \<Rightarrow> Undefined | Some e \<Rightarrow> stored e)"

definition dict_set :: "dict \<Rightarrow> string \<Rightarrow> jsval \<Rightarrow> jsnum \<Rightarrow> dict" where
  "dict_set d k v t = AList.update k \<lparr>stored = v, ttl = t\<rparr> d"

definition dict_delete :: "dict \<Rightarrow> string \<Rightarrow> dict" where
  "dict_delete d k = AList.delete k d"

definition dict_keys :: "dict \<Rightarrow> string list" where
  "dict_keys d = map fst d"

section \<open>VShield.js\<close>

text \<open>
  The global \<open>whiteList\<close> is threaded through every function as a \<open>dict option\<close>
  (\<open>None\<close> when the zone is missing). \<open>Date.now()\<close> is the parameter \<open>now\<close>; one
  handler invocation sees one clock value.
\<close>

definition DEFAULT_TTL_MS :: jsnum where
  "DEFAULT_TTL_MS = Fin (120 * 60 * 1000)"

definition TTL_REFRESH_THRESHOLD_MS :: jsnum where
  "TTL_REFRESH_THRESHOLD_MS = Fin (60 * 60 * 1000)"

definition isPositiveInteger :: "jsnum \<Rightarrow> bool" where
  "isPositiveInteger n = (Number_isInteger n \<and> js_lt (Fin 0) n)"

definition parseTtlMs :: "jsval \<Rightarrow> jsnum" where
  "parseTtlMs rawTtl =
     (let parsed = Number rawTtl
      in if isPositiveInteger parsed then parsed else DEFAULT_TTL_MS)"

definition ensureStore :: "dict option \<Rightarrow> bool" where
  "ensureStore whiteList = (whiteList \<noteq> None)"

definition Date_now :: "int \<Rightarrow> jsnum" where
  "Date_now now = Fin (of_int now)"

definition storeIP :: "string \<Rightarrow> jsval \<Rightarrow> int \<Rightarrow> dict option \<Rightarrow> js_error + dict option" where
  "storeIP ip ttlMs now whiteList =
     (let safeTtlMs = parseTtlMs ttlMs
      in case whiteList of
           None \<Rightarrow> Inl TypeError
         | Some d \<Rightarrow> Inr (Some (dict_set d ip (JNum (js_add (Date_now now) safeTtlMs)) safeTtlMs)))"

text \<open>
  \<open>!ip\<close> for a value that is a string or \<open>undefined\<close>. In \<open>isAllowed\<close> the guard
  on the first line excludes a missing address and a missing store, so the last
  case of the model is never reached.
\<close>

definition falsy :: "string option \<Rightarrow> bool" where
  "falsy ip = (case ip of None \<Rightarrow> True | Some a \<Rightarrow> a = [])"

definition isAllowed :: "string option \<Rightarrow> int \<Rightarrow> dict option \<Rightarrow> js_error + (bool \<times> dict option)" where
  "isAllowed ip now whiteList =
     (if falsy ip \<or> \<not> ensureStore whiteList then Inr (False, whiteList)
      else case (ip, whiteList) of
             (Some a, Some d) \<Rightarrow>
               (let expireAtRaw = dict_get d a in
                if expireAtRaw = Undefined \<or> expireAtRaw = Null then Inr (False, whiteList)
                else
                  let expireAt = Number expireAtRaw in
                  if Number_isNaN expireAt then Inr (False, Some (dict_delete d a))
                  else if js_le expireAt (Date_now now) then Inr (False, Some (dict_delete d a))
                  else if js_le (js_sub expireAt (Date_now now)) TTL_REFRESH_THRESHOLD_MS then
                    (case storeIP a (JNum DEFAULT_TTL_MS) now whiteList of
                       Inl e \<Rightarrow> Inl e
                     | Inr w \<Rightarrow> Inr (True, w))
                  else Inr (True, whiteList))
           | _ \<Rightarrow> Inl TypeError)"

subsection \<open>Request and session objects\<close>

text \<open>
  The njs request object: the fields the handlers read, and the effects they have on
  it (\<open>r.log\<close>, \<open>r.error\<close>, \<open>r.headersOut\<close>, \<open>r.return\<close>). \<open>variables\<close> is where the
  gateway puts the authenticated user (\<open>$vshield_user\<close>). A response body is plain
  text or the JSON rendering of the rows of the admin list.
\<close>

record http_request =
  remoteAddress :: "string option"
  args_ip :: "string option"
  args_timeout :: jsval
  variables :: "(string \<times> string) list"

record row =
  row_ip :: string
  row_expireAt :: string

datatype body = Text string | Json "row list"

record http_effects =
  logs :: "string list"
  errors :: "string list"
  headersOut :: "(string \<times> string) list"
  returned :: "(nat \<times> body) option"

definition no_effects :: http_effects where
  "no_effects = \<lparr>logs = [], errors = [], headersOut = [], returned = None\<rparr>"

record stream_session =
  s_remoteAddress :: "string option"

record stream_effects =
  s_logs :: "string list"
  s_errors :: "string list"
  allowed :: bool
  denied :: bool

definition no_stream_effects :: stream_effects where
  "no_stream_effects = \<lparr>s_logs = [], s_errors = [], allowed = False, denied = False\<rparr>"

text \<open>A value inside a template literal.\<close>

definition template :: "string option \<Rightarrow> string" where
  "template v = (case v of None \<Rightarrow> ''undefined'' | Some a \<Rightarrow> a)"

subsection \<open>Checks\<close>

definition http_verify :: "http_request \<Rightarrow> int \<Rightarrow> dict option \<Rightarrow> js_error + (http_effects \<times> dict option)" where
  "http_verify r now whiteList =
     (if \<not> ensureStore whiteList then
        Inr (no_effects\<lparr>errors := [''vs_ip shared dict is not configured''],
                        returned := Some (500, Text ''VShield storage is not configured'')\<rparr>,
             whiteList)
      else
        let clientIP = remoteAddress r in
        case isAllowed clientIP now whiteList of
          Inl e \<Rightarrow> Inl e
        | Inr (ok, w) \<Rightarrow>
            if ok then
              Inr (no_effects\<lparr>logs := [''http_verify allowed IP address: '' @ template clientIP],
                              returned := Some (200, Text ''OK'')\<rparr>, w)
            else
              Inr (no_effects\<lparr>errors := [''http_verify denied IP address: '' @ template clientIP],
                              returned := Some (403, Text ''Forbidden'')\<rparr>, w))"

definition stream_verify :: "stream_session \<Rightarrow> int \<Rightarrow> dict option \<Rightarrow> js_error + (stream_effects \<times> dict option)" where
  "stream_verify s now whiteList =
     (if \<not> ensureStore whiteList then
        Inr (no_stream_effects\<lparr>s_errors := [''vs_ip shared dict is not configured''],
                               denied := True\<rparr>, whiteList)
      else
        let clientIP = s_remoteAddress s in
        case isAllowed clientIP now whiteList of
          Inl e \<Rightarrow> Inl e
        | Inr (ok, w) \<Rightarrow>
            if ok then
              Inr (no_stream_effects\<lparr>s_logs := [''stream_verify allowed IP address: '' @ template clientIP],
                                     allowed := True\<rparr>, w)
            else
              Inr (no_stream_effects\<lparr>s_errors := [''stream_verify denied IP address: '' @ template clientIP],
                                     denied := True\<rparr>, w))"

subsection \<open>Self-service and admin mutations\<close>

definition register :: "http_request \<Rightarrow> int \<Rightarrow> dict option \<Rightarrow> js_error + (http_effects \<times> dict option)" where
  "register r now whiteList =
     (if \<not> ensureStore whiteList then
        Inr (no_effects\<lparr>returned := Some (500, Text ''VShield storage is not configured'')\<rparr>, whiteList)
      else
        let clientIP = remoteAddress r in
        if falsy clientIP then
          Inr (no_effects\<lparr>returned := Some (400, Text ''Missing client IP'')\<rparr>, whiteList)
        else
          case storeIP (template clientIP) (JNum DEFAULT_TTL_MS) now whiteList of
            Inl e \<Rightarrow> Inl e
          | Inr w \<Rightarrow>
              Inr (no_effects\<lparr>returned := Some (200, Text (template clientIP @ '' is registered''))\<rparr>, w))"

definition cancel :: "http_request \<Rightarrow> int \<Rightarrow> dict option \<Rightarrow> js_error + (http_effects \<times> dict option)" where
  "cancel r now whiteList =
     (if \<not> ensureStore whiteList then
        Inr (no_effects\<lparr>returned := Some (500, Text ''VShield storage is not configured'')\<rparr>, whiteList)
      else
        let clientIP = remoteAddress r in
        if falsy clientIP then
          Inr (no_effects\<lparr>returned := Some (400, Text ''Missing client IP'')\<rparr>, whiteList)
        else
          case whiteList of
            None \<Rightarrow> Inl TypeError
          | Some d \<Rightarrow>
              Inr (no_effects\<lparr>returned := Some (200, Text (template clientIP @ '' is unregistered''))\<rparr>,
                   Some (dict_delete d (template clientIP))))"

definition adminRegister :: "http_request \<Rightarrow> int \<Rightarrow> dict option \<Rightarrow> js_error + (http_effects \<times> dict option)" where
  "adminRegister r now whiteList =
     (if \<not> ensureStore whiteList then
        Inr (no_effects\<lparr>returned := Some (500, Text ''VShield storage is not configured'')\<rparr>, whiteList)
      else
        let clientIP = args_ip r in
        if falsy clientIP then
          Inr (no_effects\<lparr>returned := Some (400, Text ''Missing query parameter: ip'')\<rparr>, whiteList)
        else
          let ttlMs = parseTtlMs (args_timeout r) in
          case storeIP (template clientIP) (JNum ttlMs) now whiteList of
            Inl e \<Rightarrow> Inl e
          | Inr w \<Rightarrow>
              Inr (no_effects\<lparr>returned := Some (200, Text (template clientIP @ '' is registered''))\<rparr>, w))"

definition adminCancel :: "http_request \<Rightarrow> int \<Rightarrow> dict option \<Rightarrow> js_error + (http_effects \<times> dict option)" where
  "adminCancel r now whiteList =
     (if \<not> ensureStore whiteList then
        Inr (no_effects\<lparr>returned := Some (500, Text ''VShield storage is not configured'')\<rparr>, whiteList)
      else
        let clientIP = args_ip r in
        if falsy clientIP then
          Inr (no_effects\<lparr>returned := Some (400, Text ''Missing query parameter: ip'')\<rparr>, whiteList)
        else
          case whiteList of
            None \<Rightarrow> Inl TypeError
          | Some d \<Rightarrow>
              Inr (no_effects\<lparr>returned := Some (200, Text (template clientIP @ '' is unregistered''))\<rparr>,
                   Some (dict_delete d (template clientIP))))"

subsection \<open>\<open>new Date(n).toISOString()\<close>\<close>

text \<open>
  \<open>new Date(n)\<close> clips its argument: a non-finite number, or one of magnitude above
  8.64e15 ms, gives an invalid date; a finite one is truncated to an integer.
  \<open>toISOString\<close> throws \<open>RangeError\<close> on an invalid date and otherwise prints the
  UTC fields as \<open>YYYY-MM-DDTHH:mm:ss.sssZ\<close>, the year with a sign and six digits when
  it lies outside 0..9999.
\<close>

definition TimeClip :: "jsnum \<Rightarrow> int option" where
  "TimeClip t =
     (case t of
        Fin q \<Rightarrow> if \<bar>q\<bar> > 8640000000000000 then None
                 else Some (if 0 \<le> q then \<lfloor>q\<rfloor> else \<lceil>q\<rceil>)
      | _ \<Rightarrow> None)"

text \<open>The last two, three, four or six decimal digits of a natural number.\<close>

definition digit_char :: "nat \<Rightarrow> char" where
  "digit_char n = ''0123456789'' ! (n mod 10)"

definition pad2 :: "nat \<Rightarrow> string" where
  "pad2 n = [digit_char (n div 10), digit_char n]"

definition pad3 :: "nat \<Rightarrow> string" where
  "pad3 n = digit_char (n div 100) # pad2 n"

definition pad4 :: "nat \<Rightarrow> string" where
  "pad4 n = digit_char (n div 1000) # pad3 n"

definition pad6 :: "nat \<Rightarrow> string" where
  "pad6 n = digit_char (n div 100000) # digit_char (n div 10000) # pad4 n"

text \<open>Year, month and day of the month of a day number counted from 1970-01-01.\<close>

definition civil_from_days :: "int \<Rightarrow> int \<times> nat \<times> nat" where
  "civil_from_days z0 =
     (let z = z0 + 719468;
          era = z div 146097;
          doe = z - era * 146097;
          yoe = (doe - doe div 1460 + doe div 36524 - doe div 146096) div 365;
          doy = doe - (365 * yoe + yoe div 4 - yoe div 100);
          mp = (5 * doy + 2) div 153;
          d = doy - (153 * mp + 2) div 5 + 1;
          m = (if mp < 10 then mp + 3 else mp - 9);
          y = yoe + era * 400 + (if m \<le> 2 then 1 else 0)
      in (y, nat m, nat d))"

definition format_year :: "int \<Rightarrow> string" where
  "format_year y =
     (if 0 \<le> y \<and> y \<le> 9999 then pad4 (nat y)
      else (if y < 0 then ''-'' else ''+'') @ pad6 (nat \<bar>y\<bar>))"

definition format_iso :: "int \<Rightarrow> string" where
  "format_iso t =
     (let (y, m, d) = civil_from_days (t div 86400000);
          ms = nat (t mod 86400000)
      in format_year y @ ''-'' @ pad2 m @ ''-'' @ pad2 d @ ''T''
         @ pad2 (ms div 3600000) @ '':'' @ pad2 (ms div 60000 mod 60) @ '':''
         @ pad2 (ms div 1000 mod 60) @ ''.'' @ pad3 (ms mod 1000) @ ''Z'')"

definition Date_toISOString :: "jsnum \<Rightarrow> js_error + string" where
  "Date_toISOString n = (case TimeClip n of None \<Rightarrow> Inl RangeError | Some t \<Rightarrow> Inr (format_iso t))"

subsection \<open>Admin list\<close>

text \<open>The \<open>for ... of whiteList.keys()\<close> loop, with \<open>result\<close> as accumulator.\<close>

fun whiteList_rows :: "dict \<Rightarrow> string list \<Rightarrow> row list \<Rightarrow> js_error + row list" where
  "whiteList_rows d [] result = Inr result"
| "whiteList_rows d (k # ks) result =
     (let expireAt = Number (dict_get d k) in
      if Number_isNaN expireAt then whiteList_rows d ks result
      else case Date_toISOString expireAt of
             Inl e \<Rightarrow> Inl e
           | Inr str \<Rightarrow> whiteList_rows d ks (result @ [\<lparr>row_ip = k, row_expireAt = str\<rparr>]))"

definition adminWhiteList :: "http_request \<Rightarrow> dict option \<Rightarrow> js_error + (http_effects \<times> dict option)" where
  "adminWhiteList r whiteList =
     (if \<not> ensureStore whiteList then
        Inr (no_effects\<lparr>returned := Some (500, Text ''VShield storage is not configured'')\<rparr>, whiteList)
      else
        case whiteList of
          None \<Rightarrow> Inl TypeError
        | Some d \<Rightarrow>
            (case whiteList_rows d (dict_keys d) [] of
               Inl e \<Rightarrow> Inl e
             | Inr result \<Rightarrow>
                 Inr (no_effects\<lparr>headersOut := [(''Content-Type'', ''application/json; charset=utf-8'')],
                                 returned := Some (200, Json result)\<rparr>, whiteList)))"

subsection \<open>Observations used in the properties\<close>

text \<open>The reason header that the test suite reads from a denied response.\<close>

definition reason_header :: "http_effects \<Rightarrow> string option" where
  "reason_header eff = map_of (headersOut eff) ''X-VShield-Reason''"

section \<open>Basic facts\<close>

subsection \<open>Rounding\<close>

lemma pow2_pos: "0 < pow2 e"
  by (simp add: pow2_def)

lemma pow2_nat: "pow2 (int n) = 2 ^ n"
  by (simp add: pow2_def)

lemma round_half_even_of_int: "round_half_even (of_int j) = j"
  by (simp add: round_half_even_def)


lemma bitlen_unique:
  assumes low: "2 ^ n \<le> k" and high: "k < 2 ^ Suc n"
  shows "bitlen k = int n + 1"
proof -
  from low have pos: "0 < k"
    by (meson less_le_trans zero_less_numeral zero_less_power)
  let ?b = "bitlen k"
  from bitlen_bounds [OF pos] have b1: "2 ^ nat (?b - 1) \<le> k" and b2: "k < 2 ^ nat ?b"
    by simp_all
  have two: "(1::int) < 2" by simp
  from low b2 have "(2::int) ^ n < 2 ^ nat ?b" by linarith
  from power_less_imp_less_exp [OF two this] have up: "n < nat ?b" .
  from b1 high have "(2::int) ^ nat (?b - 1) < 2 ^ Suc n" by linarith
  from power_less_imp_less_exp [OF two this] have "nat (?b - 1) < Suc n" .
  with up show ?thesis by linarith
qed

lemma floor_log2_unique:
  assumes low: "2 ^ n \<le> q" and high: "q < 2 ^ Suc n"
  shows "floor_log2 q = int n"
proof -
  have "(1::rat) \<le> 2 ^ n" by simp
  with low have one: "1 \<le> q" by linarith
  have "of_int (2 ^ n) \<le> q" using low by simp
  then have l: "2 ^ n \<le> \<lfloor>q\<rfloor>" by (simp only: le_floor_iff)
  have "q < of_int (2 ^ Suc n)" using high by simp
  then have h: "\<lfloor>q\<rfloor> < 2 ^ Suc n" by (simp only: floor_less_iff)
  from bitlen_unique [OF l h] one show ?thesis
    by (simp add: floor_log2_def)
qed

text \<open>A positive value that is a whole number of quanta, below the overflow bound, is its own rounding.\<close>

lemma round_double_exact:
  assumes low: "2 ^ n \<le> q" and high: "q < 2 ^ Suc n" and small: "n < 1024"
    and whole: "q / pow2 (int n - 52) = of_int j"
  shows "round_double q = Fin q"
proof -
  have "(0::rat) < 2 ^ n" by simp
  with low have pos: "0 < q" by linarith
  have e: "max (floor_log2 \<bar>q\<bar>) (- 1022) = int n"
    using pos floor_log2_unique [OF low high] by simp
  have recover: "of_int j * pow2 (int n - 52) = q"
    using whole pow2_pos [of "int n - 52"] by (simp add: field_simps)
  have "(2::rat) ^ Suc n \<le> 2 ^ 1024"
    using small by (intro power_increasing) simp_all
  with high have "q < pow2 1024" by (simp add: pow2_def)
  with pos e recover show ?thesis
    by (simp add: round_double_def Let_def whole round_half_even_of_int)
qed

lemma round_double_minus: "round_double (- q) = (case round_double q of
    Fin r \<Rightarrow> Fin (- r) | NaN \<Rightarrow> NaN | PosInf \<Rightarrow> NegInf | NegInf \<Rightarrow> PosInf)"
  by (cases "q = 0"; cases "0 < q") (simp_all add: round_double_def Let_def)

lemma round_double_pos_int:
  assumes pos: "0 < k" and bound: "k \<le> 2 ^ 53"
  shows "round_double (of_int k) = Fin (of_int k)"
proof -
  define n where "n = nat (bitlen k - 1)"
  from bitlen_bounds [OF pos] have b1: "2 ^ n \<le> k" and b2: "k < 2 ^ nat (bitlen k)"
    by (simp_all add: n_def)
  from pos have "1 \<le> bitlen k"
    using bitlen_eq_zero_iff [of k] bitlen_nonneg [of k] by linarith
  then have suc: "nat (bitlen k) = Suc n" by (simp add: n_def)
  with b2 have b2': "k < 2 ^ Suc n" by simp
  have two: "(1::int) < 2" by simp
  from b1 bound have "(2::int) ^ n \<le> 2 ^ 53" by linarith
  from power_le_imp_le_exp [OF two this] have n53: "n \<le> 53" .
  have low: "2 ^ n \<le> (of_int k :: rat)"
    using b1 by (metis of_int_le_iff of_int_numeral of_int_power)
  have high: "(of_int k :: rat) < 2 ^ Suc n"
    using b2' by (metis of_int_less_iff of_int_numeral of_int_power)
  have whole: "\<exists>j. (of_int k :: rat) / pow2 (int n - 52) = of_int j"
  proof (cases "n \<le> 52")
    case True
    then have "pow2 (int n - 52) = 1 / 2 ^ (52 - n)"
      by (cases "n = 52") (simp_all add: pow2_def nat_diff_distrib')
    then have "(of_int k :: rat) / pow2 (int n - 52) = of_int (k * 2 ^ (52 - n))"
      by simp
    then show ?thesis ..
  next
    case False
    with n53 have n: "n = 53" by simp
    with b1 bound have "k = 2 ^ 53" by simp
    with n have "(of_int k :: rat) / pow2 (int n - 52) = of_int (2 ^ 52)"
      by (simp add: pow2_def)
    then show ?thesis ..
  qed
  then obtain j where "(of_int k :: rat) / pow2 (int n - 52) = of_int j" ..
  with low high n53 show ?thesis
    by (intro round_double_exact [where n = n and j = j]) simp_all
qed

lemma round_double_int:
  assumes "\<bar>k\<bar> \<le> 2 ^ 53"
  shows "round_double (of_int k) = Fin (of_int k)"
proof (cases "0 < k")
  case True
  with assms show ?thesis by (simp add: round_double_pos_int)
next
  case False
  show ?thesis
  proof (cases "k = 0")
    case True
    then show ?thesis by (simp add: round_double_def)
  next
    case False
    with \<open>\<not> 0 < k\<close> assms have "0 < - k" "- k \<le> 2 ^ 53" by simp_all
    then have "round_double (of_int (- k)) = Fin (of_int (- k))"
      by (rule round_double_pos_int)
    then show ?thesis
      using round_double_minus [of "of_int (- k)"] by simp
  qed
qed


subsection \<open>The program\<close>

lemma parseTtlMs_positive: "isPositiveInteger (parseTtlMs raw)"
  by (simp add: parseTtlMs_def Let_def isPositiveInteger_def DEFAULT_TTL_MS_def)

lemma isPositiveInteger_Fin: "isPositiveInteger n \<Longrightarrow> \<exists>t. n = Fin t \<and> 0 < t \<and> of_int \<lfloor>t\<rfloor> = t"
  by (cases n) (simp_all add: isPositiveInteger_def)

lemma parseTtlMs_JNum: "isPositiveInteger n \<Longrightarrow> parseTtlMs (JNum n) = n"
  by (simp add: parseTtlMs_def)

lemma parseTtlMs_DEFAULT: "parseTtlMs (JNum DEFAULT_TTL_MS) = Fin 7200000"
  by (simp add: parseTtlMs_def isPositiveInteger_def DEFAULT_TTL_MS_def)

lemma storeIP_Some:
  "storeIP a raw now (Some d) =
     Inr (Some (dict_set d a (JNum (js_add (Date_now now) (parseTtlMs raw))) (parseTtlMs raw)))"
  by (simp add: storeIP_def Let_def)

lemma dict_get_set: "dict_get (dict_set d a v t) a = v"
  by (simp add: dict_get_def dict_set_def update_conv')

lemma map_of_dict_set: "map_of (dict_set d a v t) = (map_of d)(a \<mapsto> \<lparr>stored = v, ttl = t\<rparr>)"
  by (simp add: dict_set_def update_conv')

lemma dict_get_absent: "a \<notin> set (dict_keys d) \<Longrightarrow> dict_get d a = Undefined"
  using map_of_eq_None_iff [of d a] by (simp add: dict_get_def dict_keys_def)

lemma absent_after_delete: "a \<notin> set (dict_keys (dict_delete d a))"
  using delete_notin_dom [of a d] by (simp add: dict_keys_def dict_delete_def)

lemma dict_get_present: "map_of d a = Some e \<Longrightarrow> dict_get d a = stored e"
  by (simp add: dict_get_def)

text \<open>The decision of isAllowed on a configured store, by the state of the entry.\<close>

lemma isAllowed_absent:
  "a \<noteq> [] \<Longrightarrow> dict_get d a = Undefined \<or> dict_get d a = Null \<Longrightarrow>
   isAllowed (Some a) now (Some d) = Inr (False, Some d)"
  by (auto simp add: isAllowed_def falsy_def ensureStore_def)

lemma isAllowed_NaN:
  "a \<noteq> [] \<Longrightarrow> dict_get d a \<noteq> Undefined \<Longrightarrow> dict_get d a \<noteq> Null \<Longrightarrow>
   Number (dict_get d a) = NaN \<Longrightarrow>
   isAllowed (Some a) now (Some d) = Inr (False, Some (dict_delete d a))"
  by (simp add: isAllowed_def falsy_def ensureStore_def Number_isNaN_def Let_def)

lemma isAllowed_expired:
  "a \<noteq> [] \<Longrightarrow> dict_get d a \<noteq> Undefined \<Longrightarrow> dict_get d a \<noteq> Null \<Longrightarrow>
   js_le (Number (dict_get d a)) (Date_now now) \<Longrightarrow>
   isAllowed (Some a) now (Some d) = Inr (False, Some (dict_delete d a))"
  by (simp add: isAllowed_def falsy_def ensureStore_def Number_isNaN_def Let_def)

lemma isAllowed_renew:
  "a \<noteq> [] \<Longrightarrow> dict_get d a \<noteq> Undefined \<Longrightarrow> dict_get d a \<noteq> Null \<Longrightarrow>
   Number (dict_get d a) \<noteq> NaN \<Longrightarrow>
   \<not> js_le (Number (dict_get d a)) (Date_now now) \<Longrightarrow>
   js_le (js_sub (Number (dict_get d a)) (Date_now now)) TTL_REFRESH_THRESHOLD_MS \<Longrightarrow>
   isAllowed (Some a) now (Some d) =
     Inr (True, Some (dict_set d a (JNum (Fin (of_int now + 7200000))) (Fin 7200000)))"
  by (simp add: isAllowed_def falsy_def ensureStore_def Number_isNaN_def storeIP_Some
      parseTtlMs_DEFAULT Date_now_def Let_def)

lemma isAllowed_fresh:
  "a \<noteq> [] \<Longrightarrow> dict_get d a \<noteq> Undefined \<Longrightarrow> dict_get d a \<noteq> Null \<Longrightarrow>
   Number (dict_get d a) \<noteq> NaN \<Longrightarrow>
   \<not> js_le (Number (dict_get d a)) (Date_now now) \<Longrightarrow>
   \<not> js_le (js_sub (Number (dict_get d a)) (Date_now now)) TTL_REFRESH_THRESHOLD_MS \<Longrightarrow>
   isAllowed (Some a) now (Some d) = Inr (True, Some d)"
  by (simp add: isAllowed_def falsy_def ensureStore_def Number_isNaN_def Let_def)

lemma isAllowed_valid:
  assumes "a \<noteq> []" and "dict_get d a = JNum (Fin x)" and "of_int now < x"
  shows "\<exists>w. isAllowed (Some a) now (Some d) = Inr (True, w)"
proof (cases "js_le (js_sub (Number (dict_get d a)) (Date_now now)) TTL_REFRESH_THRESHOLD_MS")
  case True
  with assms show ?thesis
    by (simp add: isAllowed_renew Date_now_def)
next
  case False
  with assms show ?thesis
    by (simp add: isAllowed_fresh Date_now_def)
qed

lemma falsy_Some: "a \<noteq> [] \<Longrightarrow> \<not> falsy (Some a)"
  by (simp add: falsy_def)

lemma template_Some: "template (Some a) = a"
  by (simp add: template_def)







lemma adminRegister_stores:
  "a \<noteq> [] \<Longrightarrow>
   adminRegister \<lparr>remoteAddress = ra, args_ip = Some a, args_timeout = raw, variables = vs\<rparr> T (Some d)
     = Inr (no_effects\<lparr>returned := Some (200, Text (a @ '' is registered''))\<rparr>,
            Some (dict_set d a (JNum (js_add (Date_now T) (parseTtlMs raw))) (parseTtlMs raw)))"
  by (simp add: adminRegister_def ensureStore_def falsy_Some template_Some storeIP_Some Let_def
      parseTtlMs_JNum parseTtlMs_positive)

lemma register_stores:
  "a \<noteq> [] \<Longrightarrow> remoteAddress r = Some a \<Longrightarrow>
   register r now (Some d)
     = Inr (no_effects\<lparr>returned := Some (200, Text (a @ '' is registered''))\<rparr>,
            Some (dict_set d a (JNum (Fin (of_int now + 7200000))) (Fin 7200000)))"
  by (simp add: register_def ensureStore_def falsy_Some template_Some storeIP_Some Let_def
      parseTtlMs_DEFAULT Date_now_def)


lemma map_of_dict_delete: "map_of (dict_delete d a) a = None"
  by (simp add: dict_delete_def delete_conv')





lemma http_verify_unconfigured:
  "http_verify r now None
     = Inr (\<lparr>logs = [], errors = [''vs_ip shared dict is not configured''], headersOut = [],
              returned = Some (500, Text ''VShield storage is not configured'')\<rparr>, None)"
  by (simp add: http_verify_def ensureStore_def no_effects_def)

lemma stream_verify_unconfigured:
  "stream_verify s now None
     = Inr (\<lparr>s_logs = [], s_errors = [''vs_ip shared dict is not configured''],
              allowed = False, denied = True\<rparr>, None)"
  by (simp add: stream_verify_def ensureStore_def no_stream_effects_def)

lemma isAllowed_falsy: "falsy addr \<Longrightarrow> isAllowed addr now w = Inr (False, w)"
  by (simp add: isAllowed_def)

lemma http_verify_denied:
  "isAllowed (remoteAddress r) now (Some d) = Inr (False, w) \<Longrightarrow>
   http_verify r now (Some d)
     = Inr (\<lparr>logs = [], errors = [''http_verify denied IP address: '' @ template (remoteAddress r)],
              headersOut = [], returned = Some (403, Text ''Forbidden'')\<rparr>, w)"
  by (simp add: http_verify_def ensureStore_def no_effects_def)

lemma stream_verify_denied:
  "isAllowed (s_remoteAddress s) now (Some d) = Inr (False, w) \<Longrightarrow>
   stream_verify s now (Some d)
     = Inr (\<lparr>s_logs = [], s_errors = [''stream_verify denied IP address: '' @ template (s_remoteAddress s)],
              allowed = False, denied = True\<rparr>, w)"
  by (simp add: stream_verify_def ensureStore_def no_stream_effects_def)

lemma http_verify_allowed:
  "isAllowed (remoteAddress r) now (Some d) = Inr (True, w) \<Longrightarrow>
   http_verify r now (Some d)
     = Inr (\<lparr>logs = [''http_verify allowed IP address: '' @ template (remoteAddress r)],
              errors = [], headersOut = [], returned = Some (200, Text ''OK'')\<rparr>, w)"
  by (simp add: http_verify_def ensureStore_def no_effects_def)

lemma stream_verify_allowed:
  "isAllowed (s_remoteAddress s) now (Some d) = Inr (True, w) \<Longrightarrow>
   stream_verify s now (Some d)
     = Inr (\<lparr>s_logs = [''stream_verify allowed IP address: '' @ template (s_remoteAddress s)],
              s_errors = [], allowed = True, denied = False\<rparr>, w)"
  by (simp add: stream_verify_def ensureStore_def no_stream_effects_def)


lemma StringToNumber_date_limit: "StringToNumber ''8640000000000000'' = Fin 8640000000000000"
proof -
  have t: "trimString ''8640000000000000'' = ''8640000000000000''"
    by (simp add: trimString_def isStrWhiteSpaceChar_def)
  have r: "round_double 8640000000000000 = Fin 8640000000000000"
    using round_double_int [of 8640000000000000] by simp
  have p: "parseUnsignedDecimal ''8640000000000000'' = Some (Fin 8640000000000000)"
    by (simp add: parseUnsignedDecimal_def splitAt_def parseMantissa_def parseDigits_def
        digitValue_def r)
  show ?thesis
    by (simp add: StringToNumber_def t p radixPrefix_def)
qed

lemma StringToNumber_text: "StringToNumber ''not-a-number'' = NaN"
proof -
  have t: "trimString ''not-a-number'' = ''not-a-number''"
    by (simp add: trimString_def isStrWhiteSpaceChar_def)
  have p: "parseUnsignedDecimal ''not-a-number'' = None"
    by (simp add: parseUnsignedDecimal_def splitAt_def parseMantissa_def parseDigits_def
        digitValue_def)
  show ?thesis
    by (simp add: StringToNumber_def t p radixPrefix_def)
qed

lemma civil_from_days_example: "civil_from_days 19675 = (2023, 11, 14)"
  unfolding civil_from_days_def Let_def by simp

lemma format_iso_example: "format_iso 1700000010000 = ''2023-11-14T22:13:30.000Z''"
proof -
  have day: "(1700000010000 :: int) div 86400000 = 19675" by simp
  have ms: "nat ((1700000010000 :: int) mod 86400000) = 80010000" by simp
  show ?thesis
    unfolding format_iso_def day ms civil_from_days_example
    by (simp add: format_year_def pad2_def pad3_def pad4_def digit_char_def)
qed




section \<open>The check\<close>

text \<open>
  Claim C1. For a non-empty address \<open>a\<close> and a configured store: a check on an
  address that is not a key of the store denies and leaves the store as it is. After
  \<open>storeIP a raw T\<close>, whose effective time-to-live is \<open>D = parseTtlMs raw\<close>, a check
  at any time before \<open>T + D\<close> allows; a check at \<open>T + D\<close> or later denies and deletes
  the entry, so that \<open>a\<close> is no longer a key and the next check, at any time, denies
  again.
\<close>

theorem check_follows_registration:
  assumes nonempty: "a \<noteq> []"
    and reg: "storeIP a raw T (Some d) = Inr (Some dreg)"
    and eff: "parseTtlMs raw = Fin D"
  shows "(a \<notin> set (dict_keys dany) \<longrightarrow> isAllowed (Some a) now (Some dany) = Inr (False, Some dany))
       \<and> (of_int Tearly < of_int T + D \<longrightarrow> (\<exists>w. isAllowed (Some a) Tearly (Some dreg) = Inr (True, w)))
       \<and> (of_int T + D \<le> of_int Tlate \<longrightarrow>
            isAllowed (Some a) Tlate (Some dreg) = Inr (False, Some (dict_delete dreg a))
          \<and> a \<notin> set (dict_keys (dict_delete dreg a))
          \<and> isAllowed (Some a) Tnext (Some (dict_delete dreg a)) = Inr (False, Some (dict_delete dreg a)))"
proof -
  from reg eff have dreg: "dreg = dict_set d a (JNum (Fin (of_int T + D))) (Fin D)"
    by (simp add: storeIP_Some Date_now_def)
  then have get: "dict_get dreg a = JNum (Fin (of_int T + D))"
    by (simp add: dict_get_set)
  have absent: "a \<notin> set (dict_keys dany) \<longrightarrow> isAllowed (Some a) now (Some dany) = Inr (False, Some dany)"
    using nonempty by (simp add: isAllowed_absent dict_get_absent)
  have valid: "of_int Tearly < of_int T + D \<longrightarrow> (\<exists>w. isAllowed (Some a) Tearly (Some dreg) = Inr (True, w))"
    using nonempty get by (simp add: isAllowed_valid)
  have gone: "a \<notin> set (dict_keys (dict_delete dreg a))"
    by (rule absent_after_delete)
  have expired: "of_int T + D \<le> of_int Tlate \<longrightarrow>
      isAllowed (Some a) Tlate (Some dreg) = Inr (False, Some (dict_delete dreg a))"
    using nonempty get by (simp add: isAllowed_expired Date_now_def)
  have again: "isAllowed (Some a) Tnext (Some (dict_delete dreg a)) = Inr (False, Some (dict_delete dreg a))"
    using nonempty gone by (simp add: isAllowed_absent dict_get_absent)
  from absent valid expired gone again show ?thesis by blast
qed

theorem check_follows_registration_witness:
  "isAllowed (Some ''203.0.113.10'') 1700000000000 (Some []) = Inr (False, Some [])
   \<and> (\<exists>w. isAllowed (Some ''203.0.113.10'') 1700007199999
          (Some [(''203.0.113.10'', \<lparr>stored = JNum (Fin 1700007200000), ttl = Fin 7200000\<rparr>)])
        = Inr (True, w))
   \<and> isAllowed (Some ''203.0.113.10'') 1700007200000
          (Some [(''203.0.113.10'', \<lparr>stored = JNum (Fin 1700007200000), ttl = Fin 7200000\<rparr>)])
        = Inr (False, Some [])
   \<and> ''203.0.113.10'' \<notin> set (dict_keys [])
   \<and> isAllowed (Some ''203.0.113.10'') 1700007200001 (Some []) = Inr (False, Some [])"
proof -
  have h1: "''203.0.113.10'' \<noteq> []" by simp
  have h2: "storeIP ''203.0.113.10'' (JNum DEFAULT_TTL_MS) 1700000000000 (Some [])
      = Inr (Some [(''203.0.113.10'', \<lparr>stored = JNum (Fin 1700007200000), ttl = Fin 7200000\<rparr>)])"
    by (simp add: storeIP_def parseTtlMs_DEFAULT dict_set_def Date_now_def)
  have h3: "parseTtlMs (JNum DEFAULT_TTL_MS) = Fin 7200000" by (rule parseTtlMs_DEFAULT)
  from check_follows_registration [OF h1 h2 h3, where dany = "[]" and now = 1700000000000
      and Tearly = 1700007199999 and Tlate = 1700007200000 and Tnext = 1700007200001]
  show ?thesis by (simp add: dict_keys_def dict_delete_def)
qed

text \<open>
  Claim C2. For a non-empty address whose entry holds a value with numeric reading
  \<open>x\<close>: when \<open>now < x\<close> and \<open>x - now \<le> 3600000\<close>, the check allows and rewrites the
  entry to the value \<open>now + 7200000\<close> with time-to-live \<open>7200000\<close>; when the remaining
  lifetime is greater than \<open>3600000\<close>, the check allows and the store is unchanged.
\<close>

theorem renewal_near_expiry:
  assumes nonempty: "a \<noteq> []"
    and entry: "map_of d a = Some e"
    and present: "stored e \<noteq> Undefined" "stored e \<noteq> Null"
  shows "(Number (stored e) = Fin x \<and> of_int now < x \<and> x - of_int now \<le> 3600000 \<longrightarrow>
            isAllowed (Some a) now (Some d)
              = Inr (True, Some (dict_set d a (JNum (Fin (of_int now + 7200000))) (Fin 7200000)))
          \<and> map_of (dict_set d a (JNum (Fin (of_int now + 7200000))) (Fin 7200000)) a
              = Some \<lparr>stored = JNum (Fin (of_int now + 7200000)), ttl = Fin 7200000\<rparr>)
       \<and> (js_lt TTL_REFRESH_THRESHOLD_MS (js_sub (Number (stored e)) (Date_now now)) \<longrightarrow>
            isAllowed (Some a) now (Some d) = Inr (True, Some d))"
proof -
  from entry have get: "dict_get d a = stored e"
    by (rule dict_get_present)
  have near: "Number (stored e) = Fin x \<and> of_int now < x \<and> x - of_int now \<le> 3600000 \<longrightarrow>
      isAllowed (Some a) now (Some d)
        = Inr (True, Some (dict_set d a (JNum (Fin (of_int now + 7200000))) (Fin 7200000)))"
    using nonempty present get
    by (simp add: isAllowed_renew Date_now_def js_sub_def TTL_REFRESH_THRESHOLD_MS_def)
  have rewritten: "map_of (dict_set d a (JNum (Fin (of_int now + 7200000))) (Fin 7200000)) a
      = Some \<lparr>stored = JNum (Fin (of_int now + 7200000)), ttl = Fin 7200000\<rparr>"
    by (simp add: map_of_dict_set)
  have far: "js_lt TTL_REFRESH_THRESHOLD_MS (js_sub (Number (stored e)) (Date_now now)) \<longrightarrow>
      isAllowed (Some a) now (Some d) = Inr (True, Some d)"
  proof
    assume far: "js_lt TTL_REFRESH_THRESHOLD_MS (js_sub (Number (stored e)) (Date_now now))"
    then have "Number (stored e) \<noteq> NaN"
      and "\<not> js_le (Number (stored e)) (Date_now now)"
      and "\<not> js_le (js_sub (Number (stored e)) (Date_now now)) TTL_REFRESH_THRESHOLD_MS"
      by (cases "Number (stored e)";
          simp add: js_sub_def Date_now_def TTL_REFRESH_THRESHOLD_MS_def)+
    with nonempty present get show "isAllowed (Some a) now (Some d) = Inr (True, Some d)"
      by (simp add: isAllowed_fresh)
  qed
  from near rewritten far show ?thesis by blast
qed

theorem renewal_near_expiry_witness:
  "isAllowed (Some ''203.0.113.10'') 1700000000000
      (Some [(''203.0.113.10'', \<lparr>stored = JNum (Fin 1700000001000), ttl = Fin 1000\<rparr>)])
     = Inr (True, Some [(''203.0.113.10'', \<lparr>stored = JNum (Fin 1700007200000), ttl = Fin 7200000\<rparr>)])
   \<and> isAllowed (Some ''203.0.113.10'') 1700000000000
      (Some [(''203.0.113.10'', \<lparr>stored = JNum (Fin 1700003600001), ttl = Fin 7200000\<rparr>)])
     = Inr (True, Some [(''203.0.113.10'', \<lparr>stored = JNum (Fin 1700003600001), ttl = Fin 7200000\<rparr>)])"
proof -
  have h1: "''203.0.113.10'' \<noteq> []" by simp
  let ?near = "\<lparr>stored = JNum (Fin 1700000001000), ttl = Fin 1000\<rparr>"
  let ?far = "\<lparr>stored = JNum (Fin 1700003600001), ttl = Fin 7200000\<rparr>"
  have n2: "map_of [(''203.0.113.10'', ?near)] ''203.0.113.10'' = Some ?near" by simp
  have f2: "map_of [(''203.0.113.10'', ?far)] ''203.0.113.10'' = Some ?far" by simp
  have n3: "stored ?near \<noteq> Undefined" "stored ?near \<noteq> Null" by simp_all
  have f3: "stored ?far \<noteq> Undefined" "stored ?far \<noteq> Null" by simp_all
  from renewal_near_expiry [OF h1 n2 n3, where x = 1700000001000 and now = 1700000000000]
  have near: "isAllowed (Some ''203.0.113.10'') 1700000000000 (Some [(''203.0.113.10'', ?near)])
     = Inr (True, Some [(''203.0.113.10'', \<lparr>stored = JNum (Fin 1700007200000), ttl = Fin 7200000\<rparr>)])"
    by (simp add: dict_set_def)
  from renewal_near_expiry [OF h1 f2 f3, where now = 1700000000000]
  have far: "isAllowed (Some ''203.0.113.10'') 1700000000000 (Some [(''203.0.113.10'', ?far)])
     = Inr (True, Some [(''203.0.113.10'', ?far)])"
    by (simp add: js_sub_def Date_now_def TTL_REFRESH_THRESHOLD_MS_def)
  from near far show ?thesis by simp
qed

text \<open>
  Claim C10. For a non-empty address whose entry holds a value that is present
  (neither \<open>undefined\<close> nor \<open>null\<close>) and whose numeric reading is \<open>NaN\<close>, the check
  denies and deletes the entry: the address is no longer a key of the store.
\<close>

theorem corrupted_entry_purged:
  assumes nonempty: "a \<noteq> []"
    and entry: "map_of d a = Some e"
    and present: "stored e \<noteq> Undefined" "stored e \<noteq> Null"
    and nan: "Number (stored e) = NaN"
  shows "isAllowed (Some a) now (Some d) = Inr (False, Some (dict_delete d a))
       \<and> a \<notin> set (dict_keys (dict_delete d a))"
  using assms by (simp add: isAllowed_NaN dict_get_present absent_after_delete)

theorem corrupted_entry_purged_witness:
  "isAllowed (Some ''192.0.2.2'') 1700000000000
      (Some [(''192.0.2.1'', \<lparr>stored = JNum (Fin 1700000010000), ttl = Fin 1000\<rparr>),
             (''192.0.2.2'', \<lparr>stored = JStr ''not-a-number'', ttl = Fin 1000\<rparr>)])
     = Inr (False, Some [(''192.0.2.1'', \<lparr>stored = JNum (Fin 1700000010000), ttl = Fin 1000\<rparr>)])
   \<and> ''192.0.2.2'' \<notin> set (dict_keys [(''192.0.2.1'', \<lparr>stored = JNum (Fin 1700000010000), ttl = Fin 1000\<rparr>)])"
proof -
  let ?bad = "\<lparr>stored = JStr ''not-a-number'', ttl = Fin 1000\<rparr>"
  let ?d = "[(''192.0.2.1'', \<lparr>stored = JNum (Fin 1700000010000), ttl = Fin 1000\<rparr>), (''192.0.2.2'', ?bad)]"
  have h1: "''192.0.2.2'' \<noteq> []" by simp
  have h2: "map_of ?d ''192.0.2.2'' = Some ?bad" by simp
  have h3: "stored ?bad \<noteq> Undefined" "stored ?bad \<noteq> Null" by simp_all
  have t: "trimString ''not-a-number'' = ''not-a-number''"
    by (simp add: trimString_def isStrWhiteSpaceChar_def)
  have p: "parseUnsignedDecimal ''not-a-number'' = None"
    by (simp add: parseUnsignedDecimal_def splitAt_def parseMantissa_def parseDigits_def
        digitValue_def)
  have h4: "Number (stored ?bad) = NaN"
    by (simp add: StringToNumber_def t p radixPrefix_def)
  from corrupted_entry_purged [OF h1 h2 h3 h4, of 1700000000000]
  show ?thesis by (simp add: dict_delete_def)
qed

section \<open>Admin registration\<close>



section \<open>Writes\<close>



section \<open>Cancellation\<close>



section \<open>Failing closed\<close>

text \<open>
  Claim C5, as stated, asks that a check on an empty address or without a store
  denies with the reason \<open>STORE_UNAVAILABLE\<close>. Without a store, \<open>http_verify\<close>
  answers 500 with a fixed body and one error line, and sets no header: the reason
  \<open>STORE_UNAVAILABLE\<close> is nowhere in its output.
\<close>

theorem store_unavailable_reason_counterexample:
  "http_verify \<lparr>remoteAddress = Some ''198.51.100.20'', args_ip = None, args_timeout = Undefined,
                 variables = []\<rparr> 1700000000000 None
     = Inr (\<lparr>logs = [], errors = [''vs_ip shared dict is not configured''], headersOut = [],
              returned = Some (500, Text ''VShield storage is not configured'')\<rparr>, None)
   \<and> reason_header \<lparr>logs = [], errors = [''vs_ip shared dict is not configured''], headersOut = [],
              returned = Some (500, Text ''VShield storage is not configured'')\<rparr>
       \<noteq> Some ''STORE_UNAVAILABLE''"
  by (simp add: http_verify_unconfigured reason_header_def)

text \<open>
  Claim C5, amended. When the address is empty or missing, or the store is not
  configured, neither gate allows and the store is left as it was: \<open>http_verify\<close>
  answers 500 without a store and 403 otherwise, with no log line and no header;
  \<open>stream_verify\<close> calls \<open>deny\<close> and not \<open>allow\<close>.
\<close>

theorem checks_fail_closed:
  assumes fault: "falsy (remoteAddress r) \<or> whiteList = None"
    and same: "s_remoteAddress s = remoteAddress r"
  shows "(\<exists>eff. http_verify r now whiteList = Inr (eff, whiteList)
            \<and> logs eff = [] \<and> headersOut eff = []
            \<and> returned eff = Some (if whiteList = None
                                    then (500, Text ''VShield storage is not configured'')
                                    else (403, Text ''Forbidden'')))
       \<and> (\<exists>eff. stream_verify s now whiteList = Inr (eff, whiteList)
            \<and> s_logs eff = [] \<and> denied eff \<and> \<not> allowed eff)"
proof (cases whiteList)
  case None
  then show ?thesis
    by (simp add: http_verify_unconfigured stream_verify_unconfigured)
next
  case (Some d)
  with fault have f: "falsy (remoteAddress r)" by simp
  then have h: "isAllowed (remoteAddress r) now (Some d) = Inr (False, Some d)"
    by (rule isAllowed_falsy)
  from f same have "isAllowed (s_remoteAddress s) now (Some d) = Inr (False, Some d)"
    by (simp add: isAllowed_falsy)
  with h Some show ?thesis
    by (simp add: http_verify_denied stream_verify_denied)
qed

theorem checks_fail_closed_witness:
  "http_verify \<lparr>remoteAddress = Some [], args_ip = None, args_timeout = Undefined, variables = []\<rparr>
       1700000000000 (Some [])
     = Inr (\<lparr>logs = [], errors = [''http_verify denied IP address: ''], headersOut = [],
              returned = Some (403, Text ''Forbidden'')\<rparr>, Some [])
   \<and> stream_verify \<lparr>s_remoteAddress = Some []\<rparr> 1700000000000 (Some [])
     = Inr (\<lparr>s_logs = [], s_errors = [''stream_verify denied IP address: ''],
              allowed = False, denied = True\<rparr>, Some [])"
proof -
  let ?r = "\<lparr>remoteAddress = Some [], args_ip = None, args_timeout = Undefined, variables = []\<rparr>"
  let ?s = "\<lparr>s_remoteAddress = Some []\<rparr>"
  have h1: "falsy (remoteAddress ?r) \<or> Some ([] :: dict) = None" by (simp add: falsy_def)
  have h2: "s_remoteAddress ?s = remoteAddress ?r" by simp
  from checks_fail_closed [OF h1 h2, of 1700000000000]
  obtain eff seff where
    e: "http_verify ?r 1700000000000 (Some []) = Inr (eff, Some [])"
      "returned eff = Some (403, Text ''Forbidden'')"
    and s: "stream_verify ?s 1700000000000 (Some []) = Inr (seff, Some [])" "denied seff" "\<not> allowed seff"
    by auto
  from e have "eff = \<lparr>logs = [], errors = [''http_verify denied IP address: ''], headersOut = [],
              returned = Some (403, Text ''Forbidden'')\<rparr>"
    by (simp add: http_verify_def ensureStore_def isAllowed_def falsy_def no_effects_def template_def)
  moreover from s have "seff = \<lparr>s_logs = [], s_errors = [''stream_verify denied IP address: ''],
              allowed = False, denied = True\<rparr>"
    by (simp add: stream_verify_def ensureStore_def isAllowed_def falsy_def no_stream_effects_def template_def)
  ultimately show ?thesis using e s by simp
qed

section \<open>Where the code departs from its tests\<close>

text \<open>
  Claim C3 asks for one audit record, with actor, address, action and outcome, for
  every register, cancel and verify call. The mutation handlers never write a log
  line, and \<open>http_verify\<close> never sets a header.
\<close>

lemma mutations_log_nothing:
  "register r now w = Inr (eff, w') \<Longrightarrow> logs eff = [] \<and> errors eff = []"
  "cancel r now w = Inr (eff, w') \<Longrightarrow> logs eff = [] \<and> errors eff = []"
  "adminRegister r now w = Inr (eff, w') \<Longrightarrow> logs eff = [] \<and> errors eff = []"
  "adminCancel r now w = Inr (eff, w') \<Longrightarrow> logs eff = [] \<and> errors eff = []"
  by (auto simp add: register_def cancel_def adminRegister_def adminCancel_def Let_def
      no_effects_def storeIP_def split: if_splits option.splits sum.splits)

lemma http_verify_sets_no_header:
  "http_verify r now w = Inr (eff, w') \<Longrightarrow> headersOut eff = []"
  by (auto simp add: http_verify_def Let_def no_effects_def split: if_splits sum.splits)

text \<open>
  Claim C3, at the input of the repository's own test (source address
  \<open>203.0.113.10\<close>, user \<open>alice@example.com\<close>, empty store, fixed clock): \<open>register\<close>
  answers 200 and writes the entry, and emits no log line at all, so no audit
  record with \<open>action=register_self\<close> and \<open>actor=alice@example.com\<close>.
\<close>

theorem register_emits_no_audit_record:
  "register \<lparr>remoteAddress = Some ''203.0.113.10'', args_ip = None, args_timeout = Undefined,
              variables = [(''vshield_user'', ''alice@example.com'')]\<rparr> 1700000000000 (Some [])
     = Inr (\<lparr>logs = [], errors = [], headersOut = [],
              returned = Some (200, Text ''203.0.113.10 is registered'')\<rparr>,
            Some [(''203.0.113.10'', \<lparr>stored = JNum (Fin 1700007200000), ttl = Fin 7200000\<rparr>)])"
proof -
  have "''203.0.113.10'' \<noteq> []" by simp
  from register_stores [OF this, of _ 1700000000000 "[]"] show ?thesis
    by (simp add: dict_set_def no_effects_def)
qed

text \<open>
  Claim C4 asks that a denied request carries a forbidden status and a reason header.
  At the input of the repository's own test (address \<open>198.51.100.20\<close>, empty store)
  \<open>http_verify\<close> answers 403 with the body \<open>Forbidden\<close> and no header: the header
  \<open>X-VShield-Reason\<close> is absent.
\<close>

theorem http_verify_denies_without_reason_header:
  "http_verify \<lparr>remoteAddress = Some ''198.51.100.20'', args_ip = None, args_timeout = Undefined,
                 variables = []\<rparr> 1700000000000 (Some [])
     = Inr (\<lparr>logs = [], errors = [''http_verify denied IP address: 198.51.100.20''],
              headersOut = [], returned = Some (403, Text ''Forbidden'')\<rparr>, Some [])
   \<and> reason_header \<lparr>logs = [], errors = [''http_verify denied IP address: 198.51.100.20''],
              headersOut = [], returned = Some (403, Text ''Forbidden'')\<rparr> = None"
proof -
  have "isAllowed (Some ''198.51.100.20'') 1700000000000 (Some []) = Inr (False, Some [])"
    by (simp add: isAllowed_absent dict_get_def)
  then show ?thesis
    by (simp add: http_verify_denied template_def reason_header_def)
qed

section \<open>Admin list\<close>

text \<open>
  The loop of \<open>adminWhiteList\<close>: when every numeric value can be clipped to a date,
  the rows are the keys whose value does not read as \<open>NaN\<close>, in key order, each with
  its ISO rendering; as soon as one value reads as a number outside the date range,
  the loop ends with \<open>RangeError\<close>.
\<close>

lemma whiteList_rows_in_range:
  assumes "\<forall>k \<in> set ks. Number (dict_get d k) = NaN \<or> TimeClip (Number (dict_get d k)) \<noteq> None"
  shows "whiteList_rows d ks acc
     = Inr (acc @ map (\<lambda>k. \<lparr>row_ip = k,
                              row_expireAt = format_iso (the (TimeClip (Number (dict_get d k))))\<rparr>)
                    (filter (\<lambda>k. Number (dict_get d k) \<noteq> NaN) ks))"
  using assms
proof (induction ks arbitrary: acc)
  case Nil
  then show ?case by simp
next
  case (Cons k ks)
  then show ?case
    by (auto simp add: Let_def Number_isNaN_def Date_toISOString_def)
qed

lemma whiteList_rows_out_of_range:
  assumes "k \<in> set ks" and "Number (dict_get d k) \<noteq> NaN"
    and "TimeClip (Number (dict_get d k)) = None"
  shows "whiteList_rows d ks acc = Inl RangeError"
  using assms
proof (induction ks arbitrary: acc)
  case Nil
  then show ?case by simp
next
  case (Cons j ks)
  show ?case
  proof (cases "j = k")
    case True
    with Cons.prems show ?thesis
      by (simp add: Let_def Number_isNaN_def Date_toISOString_def)
  next
    case False
    with Cons.prems have "k \<in> set ks" by simp
    with Cons.IH Cons.prems have "\<And>acc. whiteList_rows d ks acc = Inl RangeError" by simp
    then show ?thesis
      by (simp add: Let_def Number_isNaN_def Date_toISOString_def split: option.splits)
  qed
qed

lemma adminWhiteList_in_range:
  assumes "\<forall>k \<in> set (dict_keys d).
      Number (dict_get d k) = NaN \<or> TimeClip (Number (dict_get d k)) \<noteq> None"
  shows "adminWhiteList r (Some d)
     = Inr (\<lparr>logs = [], errors = [],
              headersOut = [(''Content-Type'', ''application/json; charset=utf-8'')],
              returned = Some (200, Json
                (map (\<lambda>k. \<lparr>row_ip = k,
                            row_expireAt = format_iso (the (TimeClip (Number (dict_get d k))))\<rparr>)
                     (filter (\<lambda>k. Number (dict_get d k) \<noteq> NaN) (dict_keys d))))\<rparr>,
            Some d)"
  using whiteList_rows_in_range [OF assms, of "[]"]
  by (simp add: adminWhiteList_def ensureStore_def no_effects_def)

text \<open>The list of the repository's own test: the entry with a text value is skipped.\<close>

lemma adminWhiteList_test_example:
  "adminWhiteList r
      (Some [(''192.0.2.1'', \<lparr>stored = JNum (Fin 1700000010000), ttl = Fin 1000\<rparr>),
             (''192.0.2.2'', \<lparr>stored = JStr ''not-a-number'', ttl = Fin 1000\<rparr>)])
     = Inr (\<lparr>logs = [], errors = [],
              headersOut = [(''Content-Type'', ''application/json; charset=utf-8'')],
              returned = Some (200, Json [\<lparr>row_ip = ''192.0.2.1'',
                                           row_expireAt = ''2023-11-14T22:13:30.000Z''\<rparr>])\<rparr>,
            Some [(''192.0.2.1'', \<lparr>stored = JNum (Fin 1700000010000), ttl = Fin 1000\<rparr>),
                  (''192.0.2.2'', \<lparr>stored = JStr ''not-a-number'', ttl = Fin 1000\<rparr>)])"
proof -
  let ?d = "[(''192.0.2.1'', \<lparr>stored = JNum (Fin 1700000010000), ttl = Fin 1000\<rparr>),
             (''192.0.2.2'', \<lparr>stored = JStr ''not-a-number'', ttl = Fin 1000\<rparr>)]"
  have g1: "dict_get ?d ''192.0.2.1'' = JNum (Fin 1700000010000)"
    and g2: "dict_get ?d ''192.0.2.2'' = JStr ''not-a-number''"
    by (simp_all add: dict_get_def)
  have clip: "TimeClip (Fin 1700000010000) = Some 1700000010000"
    by (simp add: TimeClip_def)
  have rows: "whiteList_rows ?d [''192.0.2.1'', ''192.0.2.2''] []
      = Inr [\<lparr>row_ip = ''192.0.2.1'', row_expireAt = ''2023-11-14T22:13:30.000Z''\<rparr>]"
    by (simp add: g1 g2 Number_isNaN_def Date_toISOString_def clip format_iso_example StringToNumber_text)
  have keys: "dict_keys ?d = [''192.0.2.1'', ''192.0.2.2'']"
    by (simp add: dict_keys_def)
  show ?thesis
    by (simp add: adminWhiteList_def keys rows ensureStore_def no_effects_def
        del: whiteList_rows.simps)
qed

text \<open>
  Claim C8 asks that \<open>adminWhiteList\<close> returns a list for every store content,
  skipping without error what is not a numeric instant. After
  \<open>adminRegister\<close> with \<open>ip=192.0.2.8\<close> and \<open>timeout=8640000000000000\<close> at time
  1700000000000 the stored value is 8641700000000000, beyond the largest date
  (8640000000000000 ms): \<open>toISOString\<close> throws and \<open>adminWhiteList\<close> ends with
  \<open>RangeError\<close> instead of a list.
\<close>

theorem adminWhiteList_throws_beyond_date_range:
  "adminRegister \<lparr>remoteAddress = Some ''203.0.113.10'', args_ip = Some ''192.0.2.8'',
                   args_timeout = JStr ''8640000000000000'', variables = []\<rparr>
       1700000000000 (Some [])
     = Inr (\<lparr>logs = [], errors = [], headersOut = [],
              returned = Some (200, Text ''192.0.2.8 is registered'')\<rparr>,
            Some [(''192.0.2.8'', \<lparr>stored = JNum (Fin 8641700000000000),
                                     ttl = Fin 8640000000000000\<rparr>)])
   \<and> adminWhiteList \<lparr>remoteAddress = Some ''203.0.113.10'', args_ip = None,
                   args_timeout = Undefined, variables = []\<rparr>
       (Some [(''192.0.2.8'', \<lparr>stored = JNum (Fin 8641700000000000),
                                ttl = Fin 8640000000000000\<rparr>)])
     = Inl RangeError"
proof -
  have ttl: "parseTtlMs (JStr ''8640000000000000'') = Fin 8640000000000000"
    by (simp add: parseTtlMs_def StringToNumber_date_limit isPositiveInteger_def)
  have "''192.0.2.8'' \<noteq> []" by simp
  then have reg: "adminRegister \<lparr>remoteAddress = Some ''203.0.113.10'', args_ip = Some ''192.0.2.8'',
                   args_timeout = JStr ''8640000000000000'', variables = []\<rparr>
       1700000000000 (Some [])
     = Inr (\<lparr>logs = [], errors = [], headersOut = [],
              returned = Some (200, Text ''192.0.2.8 is registered'')\<rparr>,
            Some [(''192.0.2.8'', \<lparr>stored = JNum (Fin 8641700000000000),
                                     ttl = Fin 8640000000000000\<rparr>)])"
    by (simp add: adminRegister_stores ttl dict_set_def no_effects_def Date_now_def)
  have list: "adminWhiteList \<lparr>remoteAddress = Some ''203.0.113.10'', args_ip = None,
                   args_timeout = Undefined, variables = []\<rparr>
       (Some [(''192.0.2.8'', \<lparr>stored = JNum (Fin 8641700000000000),
                                ttl = Fin 8640000000000000\<rparr>)])
     = Inl RangeError"
    by (simp add: adminWhiteList_def ensureStore_def dict_keys_def dict_get_def Let_def
        Number_isNaN_def Date_toISOString_def TimeClip_def)
  from reg list show ?thesis by simp
qed

end
